theory Spec2Isabelle
  imports Main "HOL-Library.Sublist"
begin

section \<open>JavaScript values that reach the credentials manager\<close>

text \<open>
  The module \<^verbatim>\<open>src/credentials-manager.js\<close> is embedded function by function.
  JavaScript numbers occur as session durations (seconds) and as time values
  (milliseconds since the epoch); both are integers in practice, and the only
  non-integer that the code can meet is \<open>NaN\<close> (an unparsable date, a
  non-numeric command-line value). Time values stay far below \<open>2\<^sup>5\<^sup>3\<close>, so
  the subtraction and the comparison of line 168 are exact on them.
  \<open>undefined\<close> and \<open>null\<close> are the \<open>None\<close> of an option type.
\<close>

datatype js_num = NaN | Num int

text \<open>\<open>x - d\<close> and \<open>x > y\<close> on numbers: \<open>NaN\<close> is absorbing for
  subtraction and every comparison with it is false.\<close>

fun js_sub :: "js_num \<Rightarrow> int \<Rightarrow> js_num" where
  "js_sub NaN d = NaN"
| "js_sub (Num x) d = Num (x - d)"

fun js_gt :: "js_num \<Rightarrow> js_num \<Rightarrow> bool" where
  "js_gt (Num x) (Num y) = (y < x)"
| "js_gt _ _ = False"

text \<open>Truthiness of an optional number, as \<^verbatim>\<open>if (customSessionDuration)\<close>
  tests it: \<open>undefined\<close>, \<open>NaN\<close> and \<open>0\<close> are falsy.\<close>

fun truthyNum :: "js_num option \<Rightarrow> bool" where
  "truthyNum None = False"
| "truthyNum (Some NaN) = False"
| "truthyNum (Some (Num n)) = (n \<noteq> 0)"

text \<open>Truthiness of an optional string, as \<^verbatim>\<open>if (profile)\<close> and
  \<^verbatim>\<open>if (!customRoleArn)\<close> test it: \<open>undefined\<close> and the empty string
  are falsy.\<close>

fun truthyStr :: "string option \<Rightarrow> bool" where
  "truthyStr None = False"
| "truthyStr (Some s) = (s \<noteq> [])"

text \<open>
  What \<^verbatim>\<open>ini.parse\<close> can put under a key: a string, the literals
  \<open>true\<close>, \<open>false\<close> and \<open>null\<close> (which the library converts), or a
  nested object (a section). An object is the list of its own properties, in the
  order in which \<^verbatim>\<open>Object.keys\<close> enumerates them. The objects are ordinary
  ones, as \<^verbatim>\<open>{}\<close> creates them: a read also finds what
  \<^verbatim>\<open>Object.prototype\<close> holds, a built-in function or, under
  \<open>__proto__\<close>, the prototype itself. \<open>Inherited\<close> stands for such a
  built-in value.
\<close>

datatype ini_value =
  Str string | Bool bool | Null | Obj "(string \<times> ini_value) list" | Inherited string

type_synonym config = "(string \<times> ini_value) list"

fun truthy :: "ini_value option \<Rightarrow> bool" where
  "truthy None = False"
| "truthy (Some (Str s)) = (s \<noteq> [])"
| "truthy (Some (Bool b)) = b"
| "truthy (Some Null) = False"
| "truthy (Some (Obj m)) = True"
| "truthy (Some (Inherited n)) = True"

text \<open>The property names of \<^verbatim>\<open>Object.prototype\<close>.\<close>

definition objectPrototypeNames :: "string list" where
  "objectPrototypeNames =
     [''__proto__'', ''constructor'', ''hasOwnProperty'', ''isPrototypeOf'',
      ''propertyIsEnumerable'', ''toLocaleString'', ''toString'', ''valueOf'',
      ''__defineGetter__'', ''__defineSetter__'', ''__lookupGetter__'', ''__lookupSetter__'']"

text \<open>The read \<^verbatim>\<open>obj[key]\<close> on an object: the own property, else the
  inherited one, else \<open>undefined\<close>.\<close>

definition getMember :: "config \<Rightarrow> string \<Rightarrow> ini_value option" where
  "getMember obj k =
     (case map_of obj k of
        Some v \<Rightarrow> Some v
      | None \<Rightarrow> if k \<in> set objectPrototypeNames then Some (Inherited k) else None)"

text \<open>The read \<^verbatim>\<open>x.key\<close> for a key that no primitive and no built-in value
  has, as the one key that the module reads: only an object can hold it. (The
  read is only made on a truthy \<open>x\<close>, so the TypeError of \<open>undefined.key\<close>
  and \<open>null.key\<close> is never reached.)\<close>

fun getProp :: "ini_value option \<Rightarrow> string \<Rightarrow> ini_value option" where
  "getProp (Some (Obj m)) k = getMember m k"
| "getProp _ k = None"

text \<open>
  The order of the own properties: the keys that are array indices (canonical
  decimal numerals below \<open>2\<^sup>3\<^sup>2 - 1\<close>) come first, in ascending order, the
  other keys follow in the order of their creation.
\<close>

definition indexValue :: "string \<Rightarrow> nat" where
  "indexValue k = foldl (\<lambda>n c. 10 * n + (of_char c - 48)) 0 k"

definition isArrayIndex :: "string \<Rightarrow> bool" where
  "isArrayIndex k \<longleftrightarrow>
     k \<noteq> [] \<and> list_all (\<lambda>c. c \<in> set ''0123456789'') k \<and>
     (k = ''0'' \<or> take 1 k \<noteq> ''0'') \<and> indexValue k < 4294967295"

fun replaceProp :: "string \<Rightarrow> ini_value \<Rightarrow> config \<Rightarrow> config" where
  "replaceProp k v [] = []"
| "replaceProp k v ((k', v') # rest) =
     (if k' = k then (k, v) # rest else (k', v') # replaceProp k v rest)"

fun insertIndex :: "string \<Rightarrow> ini_value \<Rightarrow> config \<Rightarrow> config" where
  "insertIndex k v [] = [(k, v)]"
| "insertIndex k v ((k', v') # rest) =
     (if isArrayIndex k' \<and> indexValue k' < indexValue k then (k', v') # insertIndex k v rest
      else (k, v) # (k', v') # rest)"

text \<open>
  The assignment \<^verbatim>\<open>obj[key] = value\<close> of an object \<open>value\<close>. An own
  property keeps its place and gets the value. Otherwise the key
  \<open>__proto__\<close> reaches the setter of \<^verbatim>\<open>Object.prototype\<close>: the
  prototype is replaced and no own property is made. Any other key becomes a
  new own property.
\<close>

definition assignProp :: "config \<Rightarrow> string \<Rightarrow> ini_value \<Rightarrow> config" where
  "assignProp obj k v =
     (if k \<in> set (map fst obj) then replaceProp k v obj
      else if k = ''__proto__'' then obj
      else if isArrayIndex k then insertIndex k v obj
      else obj @ [(k, v)])"

section \<open>The data of the module\<close>

record role =
  roleArn :: string
  principalArn :: string
  name :: string
  sessionDuration :: "js_num option"

record role_set =
  roles :: "role list"
  samlAssertion :: string

record sts_request =
  DurationSeconds :: "js_num option"
  PrincipalArn :: string
  RoleArn :: string
  SAMLAssertion :: string

record sts_credentials =
  AccessKeyId :: string
  SecretAccessKey :: string
  Expiration :: int
  SessionToken :: string

text \<open>The third argument of \<^verbatim>\<open>saveCredentials\<close>; \<open>sessionExpiration\<close> is a
  valid \<^verbatim>\<open>Date\<close>, held as its time value.\<close>

record credential_fields =
  accessKeyId :: string
  secretAccessKey :: string
  sessionExpiration :: int
  sessionToken :: string

record validity =
  isValid :: bool
  expiresAt :: "js_num option"

text \<open>Every \<^verbatim>\<open>throw\<close> and every rejected promise is a value:
  \<open>RoleNotFoundError\<close> is constructed from the parsed roles (line 45), a
  \<open>SystemError\<close> carries the \<open>code\<close> of a failed file-system call, and
  \<open>Rejected\<close> is a failure of the parser or of the identity service.\<close>

datatype error = RoleNotFoundError "role list" | SystemError string | Rejected string

section \<open>Collaborators and the world\<close>

text \<open>
  The module calls code that is not part of it: the SAML parser, the IAM and STS
  clients, \<^verbatim>\<open>ini\<close>, \<^verbatim>\<open>path.dirname\<close> and the \<^verbatim>\<open>Date\<close> built-ins.
  They are parameters, collected in one record. \<open>iamGetRole\<close> answers with
  \<^verbatim>\<open>Role.MaxSessionDuration\<close>; \<open>dateGetTime v\<close> is
  \<^verbatim>\<open>new Date(v).getTime()\<close>.
\<close>

record env =
  parseSamlResponse :: "string \<Rightarrow> string option \<Rightarrow> error + role list \<times> string"
  iamGetRole :: "string \<Rightarrow> error + int"
  stsAssumeRoleWithSAML :: "sts_request \<Rightarrow> error + sts_credentials"
  iniParse :: "string \<Rightarrow> config"
  iniEncode :: "config \<Rightarrow> string"
  dirname :: "string \<Rightarrow> string"
  toISOString :: "int \<Rightarrow> string"
  dateGetTime :: "ini_value \<Rightarrow> js_num"

text \<open>What the logger receives. A debug entry keeps the format string only (without
  the double quotes that some of them put around \<open>%s\<close>); a warning keeps its
  numeric arguments as well.\<close>

datatype log_entry = Debug string | Warning string "js_num list"

datatype service_call = IamGetRole string | StsAssumeRoleWithSAML sts_request

text \<open>A path holds a readable file, or something whose read fails with the given
  error code (a directory, a file without read permission); a path that holds
  nothing has no file. Directories are not kept: \<^verbatim>\<open>mkdir\<close> and
  \<^verbatim>\<open>writeFile\<close> fail where the world says so, with the code it gives, and a
  call that fails leaves the files as they were.\<close>

datatype node = File string | Unreadable string

record world =
  files :: "string \<Rightarrow> node option"
  mkdirFault :: "string \<Rightarrow> string option"
  writeFault :: "string \<Rightarrow> string option"
  clock :: int
  logged :: "log_entry list"
  calls :: "service_call list"

definition logDebug :: "string \<Rightarrow> world \<Rightarrow> world" where
  "logDebug msg w = w\<lparr>logged := logged w @ [Debug msg]\<rparr>"

definition logWarn :: "string \<Rightarrow> js_num list \<Rightarrow> world \<Rightarrow> world" where
  "logWarn msg args w = w\<lparr>logged := logged w @ [Warning msg args]\<rparr>"

definition called :: "service_call \<Rightarrow> world \<Rightarrow> world" where
  "called c w = w\<lparr>calls := calls w @ [c]\<rparr>"

text \<open>\<^verbatim>\<open>fs.readFile(path, 'utf-8')\<close>: the content, or the code of the error.\<close>

definition readFile :: "world \<Rightarrow> string \<Rightarrow> string + string" where
  "readFile w path =
     (case files w path of
        None \<Rightarrow> Inl ''ENOENT''
      | Some (File content) \<Rightarrow> Inr content
      | Some (Unreadable code) \<Rightarrow> Inl code)"

text \<open>\<^verbatim>\<open>fs.mkdir(dir, { recursive: true })\<close> and \<^verbatim>\<open>fs.writeFile(path, data)\<close>.\<close>

definition mkdir :: "world \<Rightarrow> string \<Rightarrow> string + world" where
  "mkdir w dir = (case mkdirFault w dir of Some code \<Rightarrow> Inl code | None \<Rightarrow> Inr w)"

definition writeFile :: "world \<Rightarrow> string \<Rightarrow> string \<Rightarrow> string + world" where
  "writeFile w path data =
     (case writeFault w path of
        Some code \<Rightarrow> Inl code
      | None \<Rightarrow> Inr (w\<lparr>files := (files w)(path \<mapsto> File data)\<rparr>))"

section \<open>The credentials manager\<close>

text \<open>Line 16: the safety margin, in milliseconds.\<close>

definition SESSION_EXPIRATION_DELTA :: int where
  "SESSION_EXPIRATION_DELTA = 30000"

text \<open>Lines 30--54.\<close>

definition prepareRoleWithSAML ::
  "env \<Rightarrow> string \<Rightarrow> string option \<Rightarrow> world \<Rightarrow> (error + role_set) \<times> world" where
  "prepareRoleWithSAML E response customRoleArn w =
     (case parseSamlResponse E response customRoleArn of
        Inl e \<Rightarrow> (Inl e, w)
      | Inr (rs, assertion) \<Rightarrow>
          if \<not> truthyStr customRoleArn then
            (Inr \<lparr>roles = rs, samlAssertion = assertion\<rparr>,
             logDebug ''A custom role ARN not been set so returning all parsed roles'' w)
          else
            (case find (\<lambda>r. Some (roleArn r) = customRoleArn) rs of
               None \<Rightarrow> (Inl (RoleNotFoundError rs), w)
             | Some customRole \<Rightarrow>
                 (Inr \<lparr>roles = [customRole], samlAssertion = assertion\<rparr>,
                  logDebug ''Found custom role ARN %s with principal ARN %s'' w)))"

text \<open>Lines 100--121.\<close>

definition loadCredentials ::
  "env \<Rightarrow> string \<Rightarrow> string option \<Rightarrow> world \<Rightarrow> (error + ini_value option) \<times> world" where
  "loadCredentials E path profile w =
     (case readFile w path of
        Inl code \<Rightarrow>
          if code = ''ENOENT'' then
            (Inr None, logDebug ''Credentials file does not exist at %s'' w)
          else (Inl (SystemError code), w)
      | Inr credentials \<Rightarrow>
          (let config = iniParse E credentials in
           case profile of
             Some p \<Rightarrow>
               if truthyStr profile then (Inr (getMember config p), w)
               else (Inr (Some (Obj config)), w)
           | None \<Rightarrow> (Inr (Some (Obj config)), w)))"

text \<open>Lines 135--139: the object assigned under the profile's key, with its four
  properties in the order of their assignment.\<close>

definition profileSection :: "env \<Rightarrow> credential_fields \<Rightarrow> config" where
  "profileSection E c =
     [(''aws_access_key_id'', Str (accessKeyId c)),
      (''aws_secret_access_key'', Str (secretAccessKey c)),
      (''aws_session_expiration'', Str (toISOString E (sessionExpiration c))),
      (''aws_session_token'', Str (sessionToken c))]"

text \<open>Lines 127--145. \<^verbatim>\<open>loadCredentials(path)\<close> without a profile yields
  \<open>undefined\<close> or the parsed object, so the other cases of the \<open>case\<close> are
  never taken. Under the profile name \<open>__proto__\<close> line 135 replaces the
  prototype and lines 136--139 write to the new prototype: the object handed to
  \<^verbatim>\<open>ini.encode\<close>, which enumerates own properties, is the one that was
  loaded.\<close>

definition saveCredentials ::
  "env \<Rightarrow> string \<Rightarrow> string \<Rightarrow> credential_fields \<Rightarrow> world \<Rightarrow> (error + unit) \<times> world" where
  "saveCredentials E path profile c w =
     (case loadCredentials E path None w of
        (Inl e, w1) \<Rightarrow> (Inl e, w1)
      | (Inr loaded, w1) \<Rightarrow>
          (let credentials = (case loaded of Some (Obj m) \<Rightarrow> m | _ \<Rightarrow> []);
               credentials' = assignProp credentials profile (Obj (profileSection E c))
           in case mkdir w1 (dirname E path) of
                Inl code \<Rightarrow> (Inl (SystemError code), w1)
              | Inr w2 \<Rightarrow>
                  (case writeFile w2 path (iniEncode E credentials') of
                     Inl code \<Rightarrow> (Inl (SystemError code), w2)
                   | Inr w3 \<Rightarrow>
                       (Inr (),
                        logDebug ''The credentials have been stored in %s under AWS profile %s with contents %o'' w3))))"

text \<open>Line 73: the format string of the warning.\<close>

definition clampWarning :: string where
  "clampWarning = ''Custom session duration %d exceeds maximum session duration of %d allowed for role. Please set --aws-session-duration=%d or $AWS_SESSION_DURATION=%d to surpress this warning''"

text \<open>Lines 61--75: the session duration handed to the exchange.\<close>

definition sessionDurationFor ::
  "env \<Rightarrow> role \<Rightarrow> js_num option \<Rightarrow> world \<Rightarrow> (error + js_num option) \<times> world" where
  "sessionDurationFor E r customSessionDuration w =
     (if truthyNum customSessionDuration then
        (let w1 = called (IamGetRole (name r)) w in
         case iamGetRole E (name r) of
           Inl e \<Rightarrow> (Inl e, w1)
         | Inr maxSessionDuration \<Rightarrow>
             (case customSessionDuration of
                Some d \<Rightarrow>
                  if js_gt d (Num maxSessionDuration) then
                    (Inr (Some (Num maxSessionDuration)),
                     logWarn clampWarning
                       [d, Num maxSessionDuration, Num maxSessionDuration, Num maxSessionDuration] w1)
                  else (Inr customSessionDuration, w1)
              | None \<Rightarrow> (Inr customSessionDuration, w1)))
      else (Inr (sessionDuration r), w))"

text \<open>Lines 77--82: the parameters of the exchange.\<close>

definition stsRequest :: "string \<Rightarrow> role \<Rightarrow> js_num option \<Rightarrow> sts_request" where
  "stsRequest assertion r duration =
     \<lparr>DurationSeconds = duration, PrincipalArn = principalArn r, RoleArn = roleArn r,
      SAMLAssertion = assertion\<rparr>"

text \<open>Lines 77--91: the exchange and the save of what it returns.\<close>

definition exchangeAndSave ::
  "env \<Rightarrow> string \<Rightarrow> string \<Rightarrow> string \<Rightarrow> role \<Rightarrow> js_num option \<Rightarrow> world \<Rightarrow> (error + unit) \<times> world" where
  "exchangeAndSave E assertion awsSharedCredentialsFile awsProfile r duration w =
     (let request = stsRequest assertion r duration;
          w1 = called (StsAssumeRoleWithSAML request) w
      in case stsAssumeRoleWithSAML E request of
           Inl e \<Rightarrow> (Inl e, w1)
         | Inr stsResponse \<Rightarrow>
             saveCredentials E awsSharedCredentialsFile awsProfile
               \<lparr>accessKeyId = AccessKeyId stsResponse,
                secretAccessKey = SecretAccessKey stsResponse,
                sessionExpiration = Expiration stsResponse,
                sessionToken = SessionToken stsResponse\<rparr>
               (logDebug ''Role ARN %s has been assumed %O'' w1))"

text \<open>Lines 60--92.\<close>

definition assumeRoleWithSAML ::
  "env \<Rightarrow> string \<Rightarrow> string \<Rightarrow> string \<Rightarrow> role \<Rightarrow> js_num option \<Rightarrow> world \<Rightarrow> (error + unit) \<times> world" where
  "assumeRoleWithSAML E assertion awsSharedCredentialsFile awsProfile r customSessionDuration w =
     (case sessionDurationFor E r customSessionDuration w of
        (Inl e, w1) \<Rightarrow> (Inl e, w1)
      | (Inr duration, w1) \<Rightarrow>
          exchangeAndSave E assertion awsSharedCredentialsFile awsProfile r duration w1)"

text \<open>Lines 153--177; \<open>delta\<close> is \<^verbatim>\<open>this.sessionExpirationDelta\<close> and
  \<open>clock\<close> is \<^verbatim>\<open>Date.now()\<close>.\<close>

definition getSessionExpirationFromCredentials ::
  "env \<Rightarrow> int \<Rightarrow> string \<Rightarrow> string option \<Rightarrow> world \<Rightarrow> (error + validity) \<times> world" where
  "getSessionExpirationFromCredentials E delta path profile w =
     (case loadCredentials E path profile
             (logDebug ''Attempting to retrieve session expiration credentials'' w) of
        (Inl e, w1) \<Rightarrow> (Inl e, w1)
      | (Inr credentials, w1) \<Rightarrow>
          if \<not> truthy credentials then (Inr \<lparr>isValid = False, expiresAt = None\<rparr>, w1)
          else
            (case getProp credentials ''aws_session_expiration'' of
               None \<Rightarrow>
                 (Inr \<lparr>isValid = False, expiresAt = None\<rparr>,
                  logDebug ''Session expiration date not found'' w1)
             | Some v \<Rightarrow>
                 if \<not> truthy (Some v) then
                   (Inr \<lparr>isValid = False, expiresAt = None\<rparr>,
                    logDebug ''Session expiration date not found'' w1)
                 else if js_gt (js_sub (dateGetTime E v) delta) (Num (clock w1)) then
                   (Inr \<lparr>isValid = True, expiresAt = Some (js_sub (dateGetTime E v) delta)\<rparr>,
                    logDebug ''Session is expected to be valid until %s minus expiration delta of %d seconds'' w1)
                 else
                   (Inr \<lparr>isValid = False, expiresAt = Some (js_sub (dateGetTime E v) delta)\<rparr>,
                    logDebug ''Session has expired on %s'' w1)))"

section \<open>Notions used to state the properties\<close>

text \<open>The mapping that the store file at \<open>path\<close> holds, as \<^verbatim>\<open>ini.parse\<close> reads
  it; the empty mapping when the file cannot be read.\<close>

definition storedConfig :: "env \<Rightarrow> world \<Rightarrow> string \<Rightarrow> config" where
  "storedConfig E w path =
     (case readFile w path of Inr content \<Rightarrow> iniParse E content | Inl code \<Rightarrow> [])"

fun isWarning :: "log_entry \<Rightarrow> bool" where
  "isWarning (Warning msg args) = True"
| "isWarning (Debug msg) = False"

text \<open>Two worlds with the same file system: they differ at most in the log, the
  recorded service calls and the clock.\<close>

definition sameStore :: "world \<Rightarrow> world \<Rightarrow> bool" where
  "sameStore w' w \<longleftrightarrow>
     files w' = files w \<and> mkdirFault w' = mkdirFault w \<and> writeFault w' = writeFault w"

section \<open>A sample codec\<close>

text \<open>
  The sample collaborators below read and write store files with the algorithm
  of \<^verbatim>\<open>ini\<close> 1.3.8 (\<^verbatim>\<open>encode\<close>, lines 11--56 of its \<^verbatim>\<open>ini.js\<close>, and
  \<^verbatim>\<open>decode\<close>, lines 67--152), cut down to the store files of this module:
  sections of scalars, with keys, section names and values that the library
  neither quotes nor splits (no \<open>=\<close>, no quote and no line break in them, no
  leading \<open>[\<close>, no blank at either end, no dot in a section name, no
  \<open>[]\<close> at the end of a key, no section named like a property of
  \<^verbatim>\<open>Object.prototype\<close>). The line end is that of a platform other than
  Windows.
\<close>

definition eol :: string where
  "eol = [CHR 0x0A]"

definition isBlank :: "char \<Rightarrow> bool" where
  "isBlank c \<longleftrightarrow> c \<in> set [CHR 0x20, CHR 0x09, CHR 0x0A, CHR 0x0B, CHR 0x0C, CHR 0x0D]"

definition trim :: "string \<Rightarrow> string" where
  "trim s = rev (dropWhile isBlank (rev (dropWhile isBlank s)))"

text \<open>\<^verbatim>\<open>safe\<close> (lines 159--168) on a string that is not handed to
  \<^verbatim>\<open>JSON.stringify\<close>: \<open>;\<close> and \<open>#\<close> get a backslash.\<close>

definition safeText :: "string \<Rightarrow> string" where
  "safeText s =
     concat (map (\<lambda>c. if c = CHR '';'' \<or> c = CHR ''#'' then [CHR 0x5C, c] else [c]) s)"

fun safeValue :: "ini_value \<Rightarrow> string" where
  "safeValue (Str s) = safeText s"
| "safeValue (Bool b) = (if b then ''true'' else ''false'')"
| "safeValue Null = ''null''"
| "safeValue (Obj m) = []"
| "safeValue (Inherited n) = ''undefined''"

text \<open>\<^verbatim>\<open>unsafe\<close> (lines 170--206) on a text that is not quoted: the walk of
  lines 182--201 drops the backslash before a backslash, \<open>;\<close> and \<open>#\<close> and
  stops at the first \<open>;\<close> or \<open>#\<close> without one.\<close>

fun unescape :: "bool \<Rightarrow> string \<Rightarrow> string" where
  "unescape esc [] = (if esc then [CHR 0x5C] else [])"
| "unescape esc (c # cs) =
     (if esc then
        (if c = CHR 0x5C \<or> c = CHR '';'' \<or> c = CHR ''#'' then c # unescape False cs
         else CHR 0x5C # c # unescape False cs)
      else if c = CHR '';'' \<or> c = CHR ''#'' then []
      else if c = CHR 0x5C then unescape True cs
      else c # unescape False cs)"

definition unsafeText :: "string \<Rightarrow> string" where
  "unsafeText s = trim (unescape False (trim s))"

text \<open>Lines 27--37: the lines of the scalar properties; an object is left to
  lines 42--53.\<close>

fun scalarLines :: "config \<Rightarrow> string" where
  "scalarLines [] = []"
| "scalarLines ((k, Obj m) # rest) = scalarLines rest"
| "scalarLines ((k, v) # rest) = safeText k @ ''='' @ safeValue v @ eol @ scalarLines rest"

text \<open>The call of line 45 for a section of scalars: its lines, under a header
  when the section has a name and a line at all (line 39).\<close>

definition sectionText :: "string \<Rightarrow> config \<Rightarrow> string" where
  "sectionText section m =
     (let out = scalarLines m
      in if section \<noteq> [] \<and> out \<noteq> [] then ''['' @ safeText section @ '']'' @ eol @ out else out)"

text \<open>Lines 42--53.\<close>

fun appendChildren :: "string \<Rightarrow> config \<Rightarrow> string" where
  "appendChildren out [] = out"
| "appendChildren out ((k, Obj m) # rest) =
     (let child = sectionText k m
      in appendChildren (out @ (if out \<noteq> [] \<and> child \<noteq> [] then eol else []) @ child) rest)"
| "appendChildren out ((k, v) # rest) = appendChildren out rest"

definition sampleEncode :: "config \<Rightarrow> string" where
  "sampleEncode obj = appendChildren (scalarLines obj) obj"

text \<open>Line 73, without the empty lines that line 76 skips.\<close>

fun splitLines :: "string \<Rightarrow> string \<Rightarrow> string list" where
  "splitLines cur [] = (if cur = [] then [] else [rev cur])"
| "splitLines cur (c # cs) =
     (if c = CHR 0x0A \<or> c = CHR 0x0D then
        (if cur = [] then splitLines [] cs else rev cur # splitLines [] cs)
      else splitLines (c # cur) cs)"

text \<open>Line 76: a comment line.\<close>

definition isComment :: "string \<Rightarrow> bool" where
  "isComment line =
     (case dropWhile isBlank line of [] \<Rightarrow> False | c # cs \<Rightarrow> c = CHR '';'' \<or> c = CHR ''#'')"

text \<open>Line 72, first alternative: a header line and the name in it.\<close>

definition headerName :: "string \<Rightarrow> string option" where
  "headerName line =
     (case line of
        [] \<Rightarrow> None
      | c # rest \<Rightarrow>
          if c = CHR ''['' \<and> rest \<noteq> [] \<and> last rest = CHR '']'' \<and> CHR '']'' \<notin> set (butlast rest)
          then Some (butlast rest) else None)"

text \<open>Line 72, second alternative: a key, and what follows its \<open>=\<close> when
  there is one.\<close>

definition keyValue :: "string \<Rightarrow> (string \<times> string option) option" where
  "keyValue line =
     (let k = takeWhile (\<lambda>c. c \<noteq> CHR ''='') line;
          r = dropWhile (\<lambda>c. c \<noteq> CHR ''='') line
      in if k = [] then None else Some (k, case r of [] \<Rightarrow> None | c # v \<Rightarrow> Some v))"

text \<open>Lines 95--100.\<close>

definition lineValue :: "string option \<Rightarrow> ini_value" where
  "lineValue r =
     (case r of
        None \<Rightarrow> Bool True
      | Some v \<Rightarrow>
          (let t = unsafeText v
           in if t = ''true'' then Bool True else if t = ''false'' then Bool False
              else if t = ''null'' then Null else Str t))"

text \<open>Where line 118 writes: to the parsed object itself, to one of its sections,
  or to an object that is not attached to it (line 86).\<close>

datatype target = Top | Section string | Detached

text \<open>Lines 75--119 for one line.\<close>

fun decodeLine :: "config \<times> target \<Rightarrow> string \<Rightarrow> config \<times> target" where
  "decodeLine (out, p) line =
     (if isComment line then (out, p)
      else case headerName line of
        Some n \<Rightarrow>
          (let section = unsafeText n
           in if section = ''__proto__'' then (out, Detached)
              else case map_of out section of
                     Some (Obj m) \<Rightarrow> (out, Section section)
                   | Some v \<Rightarrow>
                       if truthy (Some v) then (out, Detached)
                       else (assignProp out section (Obj []), Section section)
                   | None \<Rightarrow> (assignProp out section (Obj []), Section section))
      | None \<Rightarrow>
          (case keyValue line of
             None \<Rightarrow> (out, p)
           | Some (k, r) \<Rightarrow>
               (let key = unsafeText k
                in if key = ''__proto__'' then (out, p)
                   else case p of
                          Top \<Rightarrow> (assignProp out key (lineValue r), p)
                        | Section s \<Rightarrow>
                            (case map_of out s of
                               Some (Obj m) \<Rightarrow>
                                 (assignProp out s (Obj (assignProp m key (lineValue r))), p)
                             | _ \<Rightarrow> (out, p))
                        | Detached \<Rightarrow> (out, p))))"

definition sampleDecode :: "string \<Rightarrow> config" where
  "sampleDecode content = fst (foldl decodeLine ([], Top) (splitLines [] content))"

section \<open>Sample data\<close>

text \<open>Concrete collaborators and a concrete world, on which the properties below
  are exercised.\<close>

definition roleA :: role where
  "roleA = \<lparr>roleArn = ''arn:role/A'', principalArn = ''arn:idp/X'', name = ''A'',
            sessionDuration = Some (Num 3600)\<rparr>"

definition roleB :: role where
  "roleB = \<lparr>roleArn = ''arn:role/B'', principalArn = ''arn:idp/X'', name = ''B'',
            sessionDuration = Some (Num 3600)\<rparr>"

definition roleB2 :: role where
  "roleB2 = \<lparr>roleArn = ''arn:role/B'', principalArn = ''arn:idp/Y'', name = ''B'',
             sessionDuration = Some (Num 7200)\<rparr>"

definition isoStamp :: string where
  "isoStamp = ''1970-01-01T00:16:40.000Z''"

definition sampleFields :: credential_fields where
  "sampleFields = \<lparr>accessKeyId = ''AKIA1'', secretAccessKey = ''s1'',
                    sessionExpiration = 1000000, sessionToken = ''t1''\<rparr>"

definition savedSection :: config where
  "savedSection =
     [(''aws_access_key_id'', Str ''AKIA1''),
      (''aws_secret_access_key'', Str ''s1''),
      (''aws_session_expiration'', Str isoStamp),
      (''aws_session_token'', Str ''t1'')]"

definition oldSection :: config where
  "oldSection =
     [(''aws_access_key_id'', Str ''AKIA0''),
      (''aws_secret_access_key'', Str ''s0''),
      (''aws_session_expiration'', Str isoStamp),
      (''aws_session_token'', Str ''t0'')]"

text \<open>The sample store file: a section without a line, a section whose expiration
  is empty, and a section with the four fields.\<close>

definition sampleText :: string where
  "sampleText =
     concat (map (\<lambda>line. line @ eol)
       [''[bare]'',
        ''[blank]'',
        ''aws_session_expiration='',
        ''[old]'',
        ''aws_access_key_id=AKIA0'',
        ''aws_secret_access_key=s0'',
        ''aws_session_expiration=1970-01-01T00:16:40.000Z'',
        ''aws_session_token=t0''])"

definition sampleBefore :: config where
  "sampleBefore =
     [(''bare'', Obj []),
      (''blank'', Obj [(''aws_session_expiration'', Str [])]),
      (''old'', Obj oldSection)]"

definition sampleEnv :: env where
  "sampleEnv =
     \<lparr>parseSamlResponse = (\<lambda>response arn. Inr ([roleA, roleB], ''PHNhbWw+'')),
      iamGetRole = (\<lambda>n. Inr 3600),
      stsAssumeRoleWithSAML =
        (\<lambda>request. Inr \<lparr>AccessKeyId = ''AKIA1'', SecretAccessKey = ''s1'',
                         Expiration = 1000000, SessionToken = ''t1''\<rparr>),
      iniParse = sampleDecode,
      iniEncode = sampleEncode,
      dirname = (\<lambda>p. ''.''),
      toISOString = (\<lambda>t. isoStamp),
      dateGetTime = (\<lambda>v. case v of
                             Str s \<Rightarrow> if s = isoStamp then Num 1000000 else NaN
                           | Bool b \<Rightarrow> Num (if b then 1 else 0)
                           | Null \<Rightarrow> Num 0
                           | Obj m \<Rightarrow> NaN
                           | Inherited n \<Rightarrow> NaN)\<rparr>"

definition sampleWorld :: world where
  "sampleWorld =
     \<lparr>files = [''creds'' \<mapsto> File sampleText, ''locked'' \<mapsto> Unreadable ''EACCES''],
      mkdirFault = Map.empty, writeFault = Map.empty, clock = 970000,
      logged = [], calls = []\<rparr>"

text \<open>A parser that yields two roles with the same identifier.\<close>

definition twinRoleEnv :: env where
  "twinRoleEnv =
     sampleEnv\<lparr>parseSamlResponse :=
       (\<lambda>response arn. Inr ([roleA, roleB, roleB2], ''PHNhbWw+''))\<rparr>"





section \<open>Auxiliary facts\<close>

lemmas fixtures = isoStamp_def sampleFields_def savedSection_def oldSection_def
  sampleBefore_def sampleEnv_def sampleWorld_def roleA_def roleB_def roleB2_def
  twinRoleEnv_def

lemmas codec = sampleDecode_def sampleEncode_def isComment_def headerName_def keyValue_def
  lineValue_def unsafeText_def trim_def isBlank_def assignProp_def isArrayIndex_def
  sectionText_def safeText_def eol_def Let_def

lemmas model = prepareRoleWithSAML_def loadCredentials_def saveCredentials_def
  sessionDurationFor_def exchangeAndSave_def assumeRoleWithSAML_def
  getSessionExpirationFromCredentials_def profileSection_def storedConfig_def stsRequest_def
  getMember_def objectPrototypeNames_def
  readFile_def mkdir_def writeFile_def logDebug_def logWarn_def called_def Let_def
  SESSION_EXPIRATION_DELTA_def

subsection \<open>Objects\<close>







lemma getMember_expiration:
  "getMember m ''aws_session_expiration'' = map_of m ''aws_session_expiration''"
  by (simp add: getMember_def objectPrototypeNames_def split: option.splits)

subsection \<open>Role resolution\<close>

lemma prepare_all:
  assumes "parseSamlResponse E response customRoleArn = Inr (rs, a)"
    and "\<not> truthyStr customRoleArn"
  shows "prepareRoleWithSAML E response customRoleArn w =
           (Inr \<lparr>roles = rs, samlAssertion = a\<rparr>,
            w\<lparr>logged := logged w @
              [Debug ''A custom role ARN not been set so returning all parsed roles'']\<rparr>)"
  using assms by (simp add: prepareRoleWithSAML_def logDebug_def)

lemma prepare_found:
  assumes "parseSamlResponse E response (Some r) = Inr (rs, a)"
    and "r \<noteq> []"
    and "find (\<lambda>y. Some (roleArn y) = Some r) rs = Some x"
  shows "fst (prepareRoleWithSAML E response (Some r) w) = Inr \<lparr>roles = [x], samlAssertion = a\<rparr>"
  using assms by (simp add: prepareRoleWithSAML_def)

lemma prepare_missing:
  assumes "parseSamlResponse E response (Some r) = Inr (rs, a)"
    and "r \<noteq> []"
    and "find (\<lambda>y. Some (roleArn y) = Some r) rs = None"
  shows "prepareRoleWithSAML E response (Some r) w = (Inl (RoleNotFoundError rs), w)"
  using assms by (simp add: prepareRoleWithSAML_def)

subsection \<open>The profile store\<close>

lemma readFile_logDebug: "readFile (logDebug msg w) path = readFile w path"
  by (simp add: readFile_def logDebug_def)

lemma load_fst_logDebug:
  "fst (loadCredentials E path profile (logDebug msg w)) = fst (loadCredentials E path profile w)"
  by (simp add: loadCredentials_def readFile_logDebug Let_def split: sum.splits option.splits)

lemma load_clock: "clock (snd (loadCredentials E path profile w)) = clock w"
  by (simp add: loadCredentials_def logDebug_def Let_def split: sum.splits option.splits)

lemma load_absent:
  "readFile w path = Inl ''ENOENT'' \<Longrightarrow> fst (loadCredentials E path profile w) = Inr None"
  by (simp add: loadCredentials_def)

lemma load_failure:
  "readFile w path = Inl code \<Longrightarrow> code \<noteq> ''ENOENT'' \<Longrightarrow>
   fst (loadCredentials E path profile w) = Inl (SystemError code)"
  by (simp add: loadCredentials_def)

text \<open>The result of the validity check, read off the result of the load.\<close>

lemma validity_split:
  "fst (getSessionExpirationFromCredentials E delta path profile w) =
     (case fst (loadCredentials E path profile w) of
        Inl e \<Rightarrow> Inl e
      | Inr c \<Rightarrow>
          (case getProp c ''aws_session_expiration'' of
             None \<Rightarrow> Inr \<lparr>isValid = False, expiresAt = None\<rparr>
           | Some v \<Rightarrow>
               if truthy (Some v) then
                 Inr \<lparr>isValid = js_gt (js_sub (dateGetTime E v) delta) (Num (clock w)),
                      expiresAt = Some (js_sub (dateGetTime E v) delta)\<rparr>
               else Inr \<lparr>isValid = False, expiresAt = None\<rparr>))"
proof -
  let ?w0 = "logDebug ''Attempting to retrieve session expiration credentials'' w"
  obtain res w1 where l: "loadCredentials E path profile ?w0 = (res, w1)"
    by (cases "loadCredentials E path profile ?w0") auto
  have "fst (loadCredentials E path profile ?w0) = res"
    by (simp add: l)
  then have f: "fst (loadCredentials E path profile w) = res"
    by (simp add: load_fst_logDebug)
  have "clock (snd (loadCredentials E path profile ?w0)) = clock w"
    by (simp add: load_clock logDebug_def)
  then have c: "clock w1 = clock w"
    by (simp add: l)
  show ?thesis
  proof (cases res)
    case (Inl e)
    with l f show ?thesis
      by (simp add: getSessionExpirationFromCredentials_def)
  next
    case (Inr cr)
    show ?thesis
    proof (cases "truthy cr")
      case False
      then have "getProp cr ''aws_session_expiration'' = None"
        by (cases cr rule: truthy.cases) simp_all
      with False Inr l f show ?thesis
        by (simp add: getSessionExpirationFromCredentials_def)
    next
      case True
      with Inr l f c show ?thesis
        by (simp add: getSessionExpirationFromCredentials_def split: option.splits)
    qed
  qed
qed



text \<open>A save completes when the read does not fail (other than by \<open>ENOENT\<close>)
  and neither \<^verbatim>\<open>mkdir\<close> nor \<^verbatim>\<open>writeFile\<close> does.\<close>

lemma save_completes:
  assumes "\<forall>code. readFile w path = Inl code \<longrightarrow> code = ''ENOENT''"
    and "mkdirFault w (dirname E path) = None"
    and "writeFault w path = None"
  shows "fst (saveCredentials E path p c w) = Inr ()"
  using assms
  by (auto simp: saveCredentials_def loadCredentials_def mkdir_def writeFile_def logDebug_def
      Let_def split: sum.splits option.splits)

lemma load_stored:
  "readFile w path = Inr content \<Longrightarrow> p \<noteq> [] \<Longrightarrow>
   fst (loadCredentials E path (Some p) w) = Inr (getMember (storedConfig E w path) p)"
  by (simp add: loadCredentials_def storedConfig_def)




subsection \<open>The exchange\<close>

lemma save_calls: "calls (snd (saveCredentials E path p c w)) = calls w"
  by (auto simp: saveCredentials_def loadCredentials_def mkdir_def writeFile_def logDebug_def
      Let_def split: sum.splits option.splits)

lemma save_warnings:
  "filter isWarning (logged (snd (saveCredentials E path p c w))) = filter isWarning (logged w)"
  by (auto simp: saveCredentials_def loadCredentials_def mkdir_def writeFile_def logDebug_def
      Let_def split: sum.splits option.splits)

text \<open>Whether a save completes depends on the file system only.\<close>

lemma save_fst_cong:
  assumes "sameStore w' w"
  shows "fst (saveCredentials E path p c w') = fst (saveCredentials E path p c w)"
  using assms
  by (auto simp: sameStore_def saveCredentials_def loadCredentials_def readFile_def mkdir_def
      writeFile_def logDebug_def Let_def split: sum.splits option.splits node.splits)

lemma exchange_calls:
  "calls (snd (exchangeAndSave E a f p r duration w)) =
     calls w @ [StsAssumeRoleWithSAML (stsRequest a r duration)]"
  by (simp add: exchangeAndSave_def Let_def save_calls called_def logDebug_def
      split: sum.splits)

lemma exchange_warnings:
  "filter isWarning (logged (snd (exchangeAndSave E a f p r duration w))) =
     filter isWarning (logged w)"
  by (simp add: exchangeAndSave_def Let_def save_warnings called_def logDebug_def
      split: sum.splits)

lemma exchange_fst_cong:
  assumes "sameStore w' w"
  shows "fst (exchangeAndSave E a f p r duration w') = fst (exchangeAndSave E a f p r duration w)"
proof (cases "stsAssumeRoleWithSAML E (stsRequest a r duration)")
  case (Inl e)
  then show ?thesis
    by (simp add: exchangeAndSave_def Let_def)
next
  case (Inr resp)
  let ?m = "''Role ARN %s has been assumed %O''"
  let ?q = "StsAssumeRoleWithSAML (stsRequest a r duration)"
  have "sameStore (logDebug ?m (called ?q w')) (logDebug ?m (called ?q w))"
    using assms by (simp add: sameStore_def logDebug_def called_def)
  then show ?thesis
    using Inr by (simp add: exchangeAndSave_def Let_def save_fst_cong)
qed

lemma duration_default:
  "\<not> truthyNum d \<Longrightarrow> sessionDurationFor E r d w = (Inr (sessionDuration r), w)"
  by (simp add: sessionDurationFor_def)

lemma duration_clamped:
  assumes "truthyNum (Some d)" and "iamGetRole E (name r) = Inr m" and "js_gt d (Num m)"
  shows "sessionDurationFor E r (Some d) w =
           (Inr (Some (Num m)),
            logWarn clampWarning [d, Num m, Num m, Num m] (called (IamGetRole (name r)) w))"
  using assms by (simp add: sessionDurationFor_def Let_def)

lemma duration_calls:
  assumes "truthyNum (Some d)"
  shows "calls (snd (sessionDurationFor E r (Some d) w)) = calls w @ [IamGetRole (name r)]"
  using assms
  by (simp add: sessionDurationFor_def Let_def called_def logWarn_def split: sum.splits)

lemma assume_default:
  "\<not> truthyNum d \<Longrightarrow>
   assumeRoleWithSAML E a f p r d w = exchangeAndSave E a f p r (sessionDuration r) w"
  by (simp add: assumeRoleWithSAML_def duration_default)

lemma assume_queries:
  assumes "truthyNum (Some d)"
  shows "prefix (calls w @ [IamGetRole (name r)])
           (calls (snd (assumeRoleWithSAML E a f p r (Some d) w)))"
proof (cases "sessionDurationFor E r (Some d) w")
  case (Pair res w1)
  then have c: "calls w1 = calls w @ [IamGetRole (name r)]"
    using duration_calls [OF assms, of E r w] by simp
  show ?thesis
  proof (cases res)
    case (Inl e)
    with Pair c show ?thesis
      by (simp add: assumeRoleWithSAML_def)
  next
    case (Inr duration)
    with Pair c show ?thesis
      by (simp add: assumeRoleWithSAML_def exchange_calls)
  qed
qed

lemma assume_clamped:
  assumes "truthyNum (Some d)" and "iamGetRole E (name r) = Inr m" and "js_gt d (Num m)"
  shows "calls (snd (assumeRoleWithSAML E a f p r (Some d) w)) =
           calls w @ [IamGetRole (name r), StsAssumeRoleWithSAML (stsRequest a r (Some (Num m)))]"
    and "filter isWarning (logged (snd (assumeRoleWithSAML E a f p r (Some d) w))) =
           filter isWarning (logged w) @ [Warning clampWarning [d, Num m, Num m, Num m]]"
    and "fst (assumeRoleWithSAML E a f p r (Some d) w) =
           fst (exchangeAndSave E a f p r (Some (Num m)) w)"
proof -
  let ?w1 = "logWarn clampWarning [d, Num m, Num m, Num m] (called (IamGetRole (name r)) w)"
  have a: "assumeRoleWithSAML E a f p r (Some d) w = exchangeAndSave E a f p r (Some (Num m)) ?w1"
    by (simp add: assumeRoleWithSAML_def duration_clamped [OF assms])
  show "calls (snd (assumeRoleWithSAML E a f p r (Some d) w)) =
           calls w @ [IamGetRole (name r), StsAssumeRoleWithSAML (stsRequest a r (Some (Num m)))]"
    by (simp add: a exchange_calls logWarn_def called_def)
  show "filter isWarning (logged (snd (assumeRoleWithSAML E a f p r (Some d) w))) =
           filter isWarning (logged w) @ [Warning clampWarning [d, Num m, Num m, Num m]]"
    by (simp add: a exchange_warnings logWarn_def called_def)
  have "sameStore ?w1 w"
    by (simp add: sameStore_def logWarn_def called_def)
  then show "fst (assumeRoleWithSAML E a f p r (Some d) w) =
           fst (exchangeAndSave E a f p r (Some (Num m)) w)"
    by (simp add: a exchange_fst_cong)
qed

lemma exchange_completes:
  assumes "stsAssumeRoleWithSAML E (stsRequest a r d) = Inr resp"
    and "\<forall>code. readFile w f = Inl code \<longrightarrow> code = ''ENOENT''"
    and "mkdirFault w (dirname E f) = None"
    and "writeFault w f = None"
  shows "fst (exchangeAndSave E a f p r d w) = Inr ()"
proof -
  let ?w1 = "logDebug ''Role ARN %s has been assumed %O''
      (called (StsAssumeRoleWithSAML (stsRequest a r d)) w)"
  have "\<forall>code. readFile ?w1 f = Inl code \<longrightarrow> code = ''ENOENT''"
    using assms(2) by (simp add: readFile_def logDebug_def called_def)
  moreover have "mkdirFault ?w1 (dirname E f) = None" and "writeFault ?w1 f = None"
    using assms(3,4) by (simp_all add: logDebug_def called_def)
  ultimately show ?thesis
    using assms(1) by (simp add: exchangeAndSave_def Let_def save_completes)
qed

subsection \<open>The sample store\<close>

lemma split_sample:
  "splitLines [] sampleText =
     [''[bare]'', ''[blank]'', ''aws_session_expiration='', ''[old]'',
      ''aws_access_key_id=AKIA0'', ''aws_secret_access_key=s0'',
      ''aws_session_expiration=1970-01-01T00:16:40.000Z'', ''aws_session_token=t0'']"
  by (simp add: sampleText_def eol_def)

lemma decode_sample: "sampleDecode sampleText = sampleBefore"
  by (simp add: split_sample codec sampleBefore_def oldSection_def isoStamp_def)

lemma read_sample: "readFile sampleWorld ''creds'' = Inr sampleText"
  by (simp add: readFile_def sampleWorld_def)


lemma load_sample:
  "p \<noteq> [] \<Longrightarrow>
   fst (loadCredentials sampleEnv ''creds'' (Some p) w) = Inr (getMember sampleBefore p)"
  if "files w = files sampleWorld"
proof -
  assume "p \<noteq> []"
  have r: "readFile w ''creds'' = Inr sampleText"
    using that by (simp add: readFile_def sampleWorld_def)
  have "storedConfig sampleEnv w ''creds'' = sampleBefore"
    by (simp add: storedConfig_def r sampleEnv_def decode_sample)
  with load_stored [OF r \<open>p \<noteq> []\<close>, of sampleEnv] show ?thesis
    by simp
qed
















section \<open>The role resolver\<close>

text \<open>
  C7. When no role is requested (the argument is left out, or is the empty string,
  which JavaScript treats alike), \<open>prepareRoleWithSAML\<close> returns the parsed roles,
  all of them and in the parser's order, with the parser's assertion. It touches
  neither the files nor the identity service and raises nothing; the one trace it
  leaves is a debug line handed to the logger.
\<close>

theorem C7_resolve_without_request:
  assumes "parseSamlResponse E response customRoleArn = Inr (rs, a)"
    and "\<not> truthyStr customRoleArn"
  shows "fst (prepareRoleWithSAML E response customRoleArn w) =
           Inr \<lparr>roles = rs, samlAssertion = a\<rparr> \<and>
         snd (prepareRoleWithSAML E response customRoleArn w) =
           w\<lparr>logged := logged w @
             [Debug ''A custom role ARN not been set so returning all parsed roles'']\<rparr>"
  by (simp add: prepare_all [OF assms])

theorem C7_resolve_without_request_witness:
  "parseSamlResponse sampleEnv ''response'' None = Inr ([roleA, roleB], ''PHNhbWw+'') \<and>
   \<not> truthyStr None \<and>
   fst (prepareRoleWithSAML sampleEnv ''response'' None sampleWorld) =
     Inr \<lparr>roles = [roleA, roleB], samlAssertion = ''PHNhbWw+''\<rparr> \<and>
   files (snd (prepareRoleWithSAML sampleEnv ''response'' None sampleWorld)) = files sampleWorld \<and>
   calls (snd (prepareRoleWithSAML sampleEnv ''response'' None sampleWorld)) = []"
proof -
  have p: "parseSamlResponse sampleEnv ''response'' None = Inr ([roleA, roleB], ''PHNhbWw+'')"
    by (simp add: sampleEnv_def)
  have t: "\<not> truthyStr None"
    by simp
  show ?thesis
    using C7_resolve_without_request [OF p t, of sampleWorld] p
    by (simp add: sampleWorld_def)
qed

text \<open>
  C6, as the code has it. For a requested role identifier \<open>r\<close> that is not the
  empty string and that no parsed role carries, \<open>prepareRoleWithSAML\<close> raises
  \<open>RoleNotFoundError\<close>, constructed from the whole list of parsed roles, and
  leaves the world as it was.
\<close>

theorem C6_resolve_absent_role:
  assumes "parseSamlResponse E response (Some r) = Inr (rs, a)"
    and "r \<noteq> []"
    and "\<forall>x\<in>set rs. roleArn x \<noteq> r"
  shows "prepareRoleWithSAML E response (Some r) w = (Inl (RoleNotFoundError rs), w)"
proof -
  from assms(3) have "find (\<lambda>y. Some (roleArn y) = Some r) rs = None"
    by (auto simp: find_None_iff)
  with assms(1,2) show ?thesis
    by (rule prepare_missing)
qed

theorem C6_resolve_absent_role_witness:
  "parseSamlResponse sampleEnv ''response'' (Some ''arn:role/C'') =
     Inr ([roleA, roleB], ''PHNhbWw+'') \<and>
   roleArn roleA \<noteq> ''arn:role/C'' \<and> roleArn roleB \<noteq> ''arn:role/C'' \<and>
   prepareRoleWithSAML sampleEnv ''response'' (Some ''arn:role/C'') sampleWorld =
     (Inl (RoleNotFoundError [roleA, roleB]), sampleWorld)"
proof -
  have p: "parseSamlResponse sampleEnv ''response'' (Some ''arn:role/C'') =
      Inr ([roleA, roleB], ''PHNhbWw+'')"
    by (simp add: sampleEnv_def)
  have n: "''arn:role/C'' \<noteq> []"
    by simp
  have m: "\<forall>x\<in>set [roleA, roleB]. roleArn x \<noteq> ''arn:role/C''"
    by (simp add: roleA_def roleB_def)
  show ?thesis
    using C6_resolve_absent_role [OF p n m, of sampleWorld] p
    by (simp add: roleA_def roleB_def)
qed

text \<open>
  The empty string is carried by neither sample role, and yet asking for it raises
  nothing: both roles come back.
\<close>

theorem C6_empty_identifier_counterexample:
  "parseSamlResponse sampleEnv ''response'' (Some '''') = Inr ([roleA, roleB], ''PHNhbWw+'') \<and>
   roleArn roleA \<noteq> '''' \<and> roleArn roleB \<noteq> '''' \<and>
   fst (prepareRoleWithSAML sampleEnv ''response'' (Some '''') sampleWorld) =
     Inr \<lparr>roles = [roleA, roleB], samlAssertion = ''PHNhbWw+''\<rparr>"
  by (simp add: model fixtures)

text \<open>
  C5. A parsed role set carries a role identifier in each of its roles (none is
  the empty string). For such a role set and a requested identifier \<open>r\<close> that
  one of its roles carries, \<open>prepareRoleWithSAML\<close> returns exactly one role,
  the first parsed role whose \<open>roleArn\<close> equals \<open>r\<close> (compared with
  \<open>===\<close>, so case matters), with the parser's assertion.
\<close>

theorem C5_resolve_present_role:
  assumes "parseSamlResponse E response (Some r) = Inr (rs, a)"
    and "\<forall>x\<in>set rs. roleArn x \<noteq> []"
    and "\<exists>x\<in>set rs. roleArn x = r"
  shows "\<exists>x. find (\<lambda>y. roleArn y = r) rs = Some x \<and>
             fst (prepareRoleWithSAML E response (Some r) w) =
               Inr \<lparr>roles = [x], samlAssertion = a\<rparr> \<and>
             roleArn x = r \<and> x \<in> set rs"
proof -
  from assms(2,3) have n: "r \<noteq> []"
    by blast
  from assms(3) obtain x where x: "find (\<lambda>y. roleArn y = r) rs = Some x"
    by (cases "find (\<lambda>y. roleArn y = r) rs") (auto simp: find_None_iff)
  then have m: "roleArn x = r" and s: "x \<in> set rs"
    by (auto simp: find_Some_iff)
  from x have "find (\<lambda>y. Some (roleArn y) = Some r) rs = Some x"
    by simp
  from prepare_found [OF assms(1) n this] x m s show ?thesis
    by blast
qed

theorem C5_resolve_present_role_witness:
  "parseSamlResponse twinRoleEnv ''response'' (Some ''arn:role/B'') =
     Inr ([roleA, roleB, roleB2], ''PHNhbWw+'') \<and>
   roleArn roleA \<noteq> [] \<and> roleArn roleB \<noteq> [] \<and> roleArn roleB2 \<noteq> [] \<and>
   roleArn roleB = ''arn:role/B'' \<and> roleArn roleB2 = ''arn:role/B'' \<and> roleB \<noteq> roleB2 \<and>
   fst (prepareRoleWithSAML twinRoleEnv ''response'' (Some ''arn:role/B'') sampleWorld) =
     Inr \<lparr>roles = [roleB], samlAssertion = ''PHNhbWw+''\<rparr>"
proof -
  have p: "parseSamlResponse twinRoleEnv ''response'' (Some ''arn:role/B'') =
      Inr ([roleA, roleB, roleB2], ''PHNhbWw+'')"
    by (simp add: twinRoleEnv_def)
  have n: "\<forall>x\<in>set [roleA, roleB, roleB2]. roleArn x \<noteq> []"
    by (simp add: roleA_def roleB_def roleB2_def)
  have m: "\<exists>x\<in>set [roleA, roleB, roleB2]. roleArn x = ''arn:role/B''"
    by (simp add: roleB_def)
  have f: "find (\<lambda>y. roleArn y = ''arn:role/B'') [roleA, roleB, roleB2] = Some roleB"
    by (simp add: roleA_def roleB_def)
  from C5_resolve_present_role [OF p n m, of sampleWorld] f
  have "fst (prepareRoleWithSAML twinRoleEnv ''response'' (Some ''arn:role/B'') sampleWorld) =
      Inr \<lparr>roles = [roleB], samlAssertion = ''PHNhbWw+''\<rparr>"
    by auto
  with p show ?thesis
    by (simp add: roleA_def roleB_def roleB2_def)
qed

section \<open>The session validity check\<close>

text \<open>
  C8. When reading the store file fails with the code \<open>ENOENT\<close> (no file at the
  path), \<open>loadCredentials\<close> returns \<open>undefined\<close> and raises nothing, and the
  validity check answers \<open>{isValid: false, expiresAt: null}\<close>. A read that
  fails with any other code raises that error. The validity check gives the same
  answer \<open>{isValid: false, expiresAt: null}\<close> whenever what was loaded has no
  \<open>aws_session_expiration\<close> field.
\<close>

theorem C8_absent_store_and_absent_field:
  "(readFile w path = Inl ''ENOENT'' \<longrightarrow>
      fst (loadCredentials E path profile w) = Inr None \<and>
      fst (getSessionExpirationFromCredentials E delta path profile w) =
        Inr \<lparr>isValid = False, expiresAt = None\<rparr>) \<and>
   (\<forall>code. readFile w path = Inl code \<and> code \<noteq> ''ENOENT'' \<longrightarrow>
      fst (loadCredentials E path profile w) = Inl (SystemError code)) \<and>
   (\<forall>c. fst (loadCredentials E path profile w) = Inr c \<and>
        getProp c ''aws_session_expiration'' = None \<longrightarrow>
      fst (getSessionExpirationFromCredentials E delta path profile w) =
        Inr \<lparr>isValid = False, expiresAt = None\<rparr>)"
proof (intro conjI impI allI)
  assume "readFile w path = Inl ''ENOENT''"
  then show a: "fst (loadCredentials E path profile w) = Inr None"
    by (rule load_absent)
  show "fst (getSessionExpirationFromCredentials E delta path profile w) =
      Inr \<lparr>isValid = False, expiresAt = None\<rparr>"
    by (simp add: validity_split a)
next
  fix code
  assume "readFile w path = Inl code \<and> code \<noteq> ''ENOENT''"
  then show "fst (loadCredentials E path profile w) = Inl (SystemError code)"
    by (simp add: load_failure)
next
  fix c
  assume "fst (loadCredentials E path profile w) = Inr c \<and>
    getProp c ''aws_session_expiration'' = None"
  then show "fst (getSessionExpirationFromCredentials E delta path profile w) =
      Inr \<lparr>isValid = False, expiresAt = None\<rparr>"
    by (simp add: validity_split)
qed

theorem C8_absent_store_and_absent_field_witness:
  "readFile sampleWorld ''nowhere'' = Inl ''ENOENT'' \<and>
   fst (loadCredentials sampleEnv ''nowhere'' (Some ''old'') sampleWorld) = Inr None \<and>
   fst (getSessionExpirationFromCredentials sampleEnv SESSION_EXPIRATION_DELTA ''nowhere''
          (Some ''old'') sampleWorld) = Inr \<lparr>isValid = False, expiresAt = None\<rparr> \<and>
   readFile sampleWorld ''locked'' = Inl ''EACCES'' \<and> ''EACCES'' \<noteq> ''ENOENT'' \<and>
   fst (loadCredentials sampleEnv ''locked'' (Some ''old'') sampleWorld) =
     Inl (SystemError ''EACCES'') \<and>
   fst (loadCredentials sampleEnv ''creds'' (Some ''bare'') sampleWorld) =
     Inr (Some (Obj [])) \<and>
   getProp (Some (Obj [])) ''aws_session_expiration'' = None \<and>
   fst (getSessionExpirationFromCredentials sampleEnv SESSION_EXPIRATION_DELTA ''creds''
          (Some ''bare'') sampleWorld) = Inr \<lparr>isValid = False, expiresAt = None\<rparr>"
proof -
  have a: "readFile sampleWorld ''nowhere'' = Inl ''ENOENT''"
    by (simp add: readFile_def sampleWorld_def)
  have b: "readFile sampleWorld ''locked'' = Inl ''EACCES'' \<and> ''EACCES'' \<noteq> ''ENOENT''"
    by (simp add: readFile_def sampleWorld_def)
  have c: "fst (loadCredentials sampleEnv ''creds'' (Some ''bare'') sampleWorld) =
      Inr (Some (Obj [])) \<and>
    getProp (Some (Obj [])) ''aws_session_expiration'' = None"
    by (simp add: load_sample getMember_def sampleBefore_def objectPrototypeNames_def)
  note t = C8_absent_store_and_absent_field
  from a t [of sampleWorld "''nowhere''" sampleEnv "Some ''old''" SESSION_EXPIRATION_DELTA]
  have 1: "fst (loadCredentials sampleEnv ''nowhere'' (Some ''old'') sampleWorld) = Inr None \<and>
    fst (getSessionExpirationFromCredentials sampleEnv SESSION_EXPIRATION_DELTA ''nowhere''
          (Some ''old'') sampleWorld) = Inr \<lparr>isValid = False, expiresAt = None\<rparr>"
    by blast
  from b t [of sampleWorld "''locked''" sampleEnv "Some ''old''" SESSION_EXPIRATION_DELTA]
  have 2: "fst (loadCredentials sampleEnv ''locked'' (Some ''old'') sampleWorld) =
     Inl (SystemError ''EACCES'')"
    by blast
  from c t [of sampleWorld "''creds''" sampleEnv "Some ''bare''" SESSION_EXPIRATION_DELTA]
  have 3: "fst (getSessionExpirationFromCredentials sampleEnv SESSION_EXPIRATION_DELTA ''creds''
          (Some ''bare'') sampleWorld) = Inr \<lparr>isValid = False, expiresAt = None\<rparr>"
    by blast
  from a b c 1 2 3 show ?thesis
    by blast
qed

text \<open>
  C1, as the code has it. When the loaded profile has an \<open>aws_session_expiration\<close>
  field whose value is truthy (a non-empty string, or the literal \<open>true\<close>), the
  validity check computes the adjusted expiry \<open>new Date(v).getTime() - delta\<close>
  and returns it as \<open>expiresAt\<close>, with \<open>isValid\<close> true exactly when the
  adjusted expiry is strictly greater than \<open>Date.now()\<close>; an unparsable date
  gives \<open>NaN\<close> and \<open>isValid\<close> false. With the module's delta of 30 seconds,
  an expiration 30 seconds ahead is invalid and one 31 seconds ahead is valid.
\<close>

theorem C1_validity_of_truthy_expiration:
  assumes "fst (loadCredentials E path profile w) = Inr c"
    and "getProp c ''aws_session_expiration'' = Some v"
    and "truthy (Some v)"
  shows "fst (getSessionExpirationFromCredentials E delta path profile w) =
           Inr \<lparr>isValid = js_gt (js_sub (dateGetTime E v) delta) (Num (clock w)),
                expiresAt = Some (js_sub (dateGetTime E v) delta)\<rparr> \<and>
         (dateGetTime E v = Num (clock w + 30 * 1000) \<longrightarrow>
            fst (getSessionExpirationFromCredentials E SESSION_EXPIRATION_DELTA path profile w) =
              Inr \<lparr>isValid = False, expiresAt = Some (Num (clock w))\<rparr>) \<and>
         (dateGetTime E v = Num (clock w + 31 * 1000) \<longrightarrow>
            fst (getSessionExpirationFromCredentials E SESSION_EXPIRATION_DELTA path profile w) =
              Inr \<lparr>isValid = True, expiresAt = Some (Num (clock w + 1000))\<rparr>)"
  using assms by (simp add: validity_split SESSION_EXPIRATION_DELTA_def)

theorem C1_validity_of_truthy_expiration_witness:
  "fst (loadCredentials sampleEnv ''creds'' (Some ''old'') sampleWorld) =
     Inr (Some (Obj oldSection)) \<and>
   truthy (Some (Str isoStamp)) \<and>
   dateGetTime sampleEnv (Str isoStamp) = Num (clock sampleWorld + 30 * 1000) \<and>
   fst (getSessionExpirationFromCredentials sampleEnv SESSION_EXPIRATION_DELTA ''creds''
          (Some ''old'') sampleWorld) =
     Inr \<lparr>isValid = False, expiresAt = Some (Num 970000)\<rparr> \<and>
   dateGetTime sampleEnv (Str isoStamp) = Num (clock (sampleWorld\<lparr>clock := 969000\<rparr>) + 31 * 1000) \<and>
   fst (getSessionExpirationFromCredentials sampleEnv SESSION_EXPIRATION_DELTA ''creds''
          (Some ''old'') (sampleWorld\<lparr>clock := 969000\<rparr>)) =
     Inr \<lparr>isValid = True, expiresAt = Some (Num 970000)\<rparr>"
proof -
  let ?c = "Some (Obj oldSection)"
  have l: "fst (loadCredentials sampleEnv ''creds'' (Some ''old'') sampleWorld) = Inr ?c"
    by (simp add: load_sample getMember_def sampleBefore_def)
  have l': "fst (loadCredentials sampleEnv ''creds'' (Some ''old'')
      (sampleWorld\<lparr>clock := 969000\<rparr>)) = Inr ?c"
    by (simp add: load_sample getMember_def sampleBefore_def)
  have g: "getProp ?c ''aws_session_expiration'' = Some (Str isoStamp)"
    by (simp add: getMember_expiration oldSection_def)
  have t: "truthy (Some (Str isoStamp))"
    by (simp add: isoStamp_def)
  have d: "dateGetTime sampleEnv (Str isoStamp) = Num (clock sampleWorld + 30 * 1000)"
    by (simp add: sampleEnv_def sampleWorld_def)
  have d': "dateGetTime sampleEnv (Str isoStamp) =
      Num (clock (sampleWorld\<lparr>clock := 969000\<rparr>) + 31 * 1000)"
    by (simp add: sampleEnv_def sampleWorld_def)
  from C1_validity_of_truthy_expiration [OF l g t, of SESSION_EXPIRATION_DELTA] d
  have "fst (getSessionExpirationFromCredentials sampleEnv SESSION_EXPIRATION_DELTA ''creds''
          (Some ''old'') sampleWorld) =
       Inr \<lparr>isValid = False, expiresAt = Some (Num (clock sampleWorld))\<rparr>"
    by blast
  moreover have "clock sampleWorld = 970000"
    by (simp add: sampleWorld_def)
  ultimately
  have 1: "fst (getSessionExpirationFromCredentials sampleEnv SESSION_EXPIRATION_DELTA ''creds''
          (Some ''old'') sampleWorld) = Inr \<lparr>isValid = False, expiresAt = Some (Num 970000)\<rparr>"
    by simp
  from C1_validity_of_truthy_expiration [OF l' g t, of SESSION_EXPIRATION_DELTA] d'
  have "fst (getSessionExpirationFromCredentials sampleEnv SESSION_EXPIRATION_DELTA ''creds''
          (Some ''old'') (sampleWorld\<lparr>clock := 969000\<rparr>)) =
       Inr \<lparr>isValid = True,
            expiresAt = Some (Num (clock (sampleWorld\<lparr>clock := 969000\<rparr>) + 1000))\<rparr>"
    by blast
  then
  have 2: "fst (getSessionExpirationFromCredentials sampleEnv SESSION_EXPIRATION_DELTA ''creds''
          (Some ''old'') (sampleWorld\<lparr>clock := 969000\<rparr>)) =
       Inr \<lparr>isValid = True, expiresAt = Some (Num 970000)\<rparr>"
    by simp
  from l t d d' 1 2 show ?thesis
    by blast
qed

text \<open>
  A field that is present but empty is treated as missing: the profile
  \<open>blank\<close> of the sample store has the field, its value is the empty string,
  and the answer carries no \<open>expiresAt\<close> at all instead of the adjusted
  expiry (which would be \<open>NaN\<close>).
\<close>

theorem C1_empty_expiration_counterexample:
  "fst (loadCredentials sampleEnv ''creds'' (Some ''blank'') sampleWorld) =
     Inr (Some (Obj [(''aws_session_expiration'', Str '''')])) \<and>
   getProp (Some (Obj [(''aws_session_expiration'', Str '''')])) ''aws_session_expiration'' =
     Some (Str '''') \<and>
   js_sub (dateGetTime sampleEnv (Str '''')) SESSION_EXPIRATION_DELTA = NaN \<and>
   fst (getSessionExpirationFromCredentials sampleEnv SESSION_EXPIRATION_DELTA ''creds''
          (Some ''blank'') sampleWorld) =
     Inr \<lparr>isValid = False, expiresAt = None\<rparr>"
proof -
  have l: "fst (loadCredentials sampleEnv ''creds'' (Some ''blank'') sampleWorld) =
      Inr (Some (Obj [(''aws_session_expiration'', Str '''')]))"
    by (simp add: load_sample getMember_def sampleBefore_def)
  have d: "js_sub (dateGetTime sampleEnv (Str '''')) SESSION_EXPIRATION_DELTA = NaN"
    by (simp add: sampleEnv_def isoStamp_def)
  from l d show ?thesis
    by (simp add: validity_split getMember_expiration)
qed

section \<open>Saving a profile\<close>







section \<open>The session duration of the exchange\<close>

text \<open>
  C4, as the code has it. A custom session duration counts as requested when it
  is truthy, that is a number other than \<open>0\<close> and \<open>NaN\<close>. For such a
  duration \<open>d\<close> the first service call is the lookup of the role by its name.
  When the lookup answers with a maximum \<open>m\<close> and \<open>d > m\<close>, the service
  calls are that lookup followed by the exchange with \<open>DurationSeconds = m\<close>,
  exactly one warning is logged, naming \<open>d\<close> and \<open>m\<close>, and the call ends as
  the exchange and the save with \<open>m\<close> end: the clamp itself raises nothing.
  When no custom duration is given, the only service call is the exchange with
  the role's own \<open>sessionDuration\<close>; the role is not looked up.
\<close>

theorem C4_session_duration_policy:
  "(truthyNum (Some d) \<longrightarrow>
      prefix (calls w @ [IamGetRole (name r)])
        (calls (snd (assumeRoleWithSAML E a f p r (Some d) w)))) \<and>
   (truthyNum (Some d) \<and> iamGetRole E (name r) = Inr m \<and> js_gt d (Num m) \<longrightarrow>
      calls (snd (assumeRoleWithSAML E a f p r (Some d) w)) =
        calls w @ [IamGetRole (name r), StsAssumeRoleWithSAML (stsRequest a r (Some (Num m)))] \<and>
      filter isWarning (logged (snd (assumeRoleWithSAML E a f p r (Some d) w))) =
        filter isWarning (logged w) @ [Warning clampWarning [d, Num m, Num m, Num m]] \<and>
      fst (assumeRoleWithSAML E a f p r (Some d) w) =
        fst (exchangeAndSave E a f p r (Some (Num m)) w)) \<and>
   calls (snd (assumeRoleWithSAML E a f p r None w)) =
     calls w @ [StsAssumeRoleWithSAML (stsRequest a r (sessionDuration r))]"
proof (intro conjI impI)
  assume "truthyNum (Some d)"
  then show "prefix (calls w @ [IamGetRole (name r)])
      (calls (snd (assumeRoleWithSAML E a f p r (Some d) w)))"
    by (rule assume_queries)
next
  assume h: "truthyNum (Some d) \<and> iamGetRole E (name r) = Inr m \<and> js_gt d (Num m)"
  then show "calls (snd (assumeRoleWithSAML E a f p r (Some d) w)) =
      calls w @ [IamGetRole (name r), StsAssumeRoleWithSAML (stsRequest a r (Some (Num m)))]"
    by (simp add: assume_clamped(1))
  from h show "filter isWarning (logged (snd (assumeRoleWithSAML E a f p r (Some d) w))) =
      filter isWarning (logged w) @ [Warning clampWarning [d, Num m, Num m, Num m]]"
    by (simp add: assume_clamped(2))
  from h show "fst (assumeRoleWithSAML E a f p r (Some d) w) =
      fst (exchangeAndSave E a f p r (Some (Num m)) w)"
    by (simp add: assume_clamped(3))
next
  show "calls (snd (assumeRoleWithSAML E a f p r None w)) =
      calls w @ [StsAssumeRoleWithSAML (stsRequest a r (sessionDuration r))]"
    by (simp add: assume_default exchange_calls)
qed

theorem C4_session_duration_policy_witness:
  "truthyNum (Some (Num 7200)) \<and> iamGetRole sampleEnv (name roleA) = Inr 3600 \<and>
   js_gt (Num 7200) (Num 3600) \<and>
   prefix [IamGetRole ''A'']
     (calls (snd (assumeRoleWithSAML sampleEnv ''PHNhbWw+'' ''creds'' ''default'' roleA
        (Some (Num 7200)) sampleWorld))) \<and>
   calls (snd (assumeRoleWithSAML sampleEnv ''PHNhbWw+'' ''creds'' ''default'' roleA
       (Some (Num 7200)) sampleWorld)) =
     [IamGetRole ''A'',
      StsAssumeRoleWithSAML \<lparr>DurationSeconds = Some (Num 3600), PrincipalArn = ''arn:idp/X'',
        RoleArn = ''arn:role/A'', SAMLAssertion = ''PHNhbWw+''\<rparr>] \<and>
   filter isWarning (logged (snd (assumeRoleWithSAML sampleEnv ''PHNhbWw+'' ''creds'' ''default''
       roleA (Some (Num 7200)) sampleWorld))) =
     [Warning clampWarning [Num 7200, Num 3600, Num 3600, Num 3600]] \<and>
   fst (assumeRoleWithSAML sampleEnv ''PHNhbWw+'' ''creds'' ''default'' roleA
       (Some (Num 7200)) sampleWorld) = Inr ()"
proof -
  have h: "truthyNum (Some (Num 7200)) \<and> iamGetRole sampleEnv (name roleA) = Inr 3600 \<and>
      js_gt (Num 7200) (Num 3600)"
    by (simp add: sampleEnv_def)
  have e: "fst (exchangeAndSave sampleEnv ''PHNhbWw+'' ''creds'' ''default'' roleA
      (Some (Num 3600)) sampleWorld) = Inr ()"
    by (rule exchange_completes) (simp add: sampleEnv_def, simp add: read_sample, simp_all add: sampleWorld_def)
  have c: "calls sampleWorld = [] \<and> logged sampleWorld = []"
    by (simp add: sampleWorld_def)
  have q: "stsRequest ''PHNhbWw+'' roleA (Some (Num 3600)) =
      \<lparr>DurationSeconds = Some (Num 3600), PrincipalArn = ''arn:idp/X'',
        RoleArn = ''arn:role/A'', SAMLAssertion = ''PHNhbWw+''\<rparr> \<and> name roleA = ''A''"
    by (simp add: stsRequest_def roleA_def)
  from C4_session_duration_policy [of "Num 7200" sampleWorld roleA sampleEnv "''PHNhbWw+''"
      "''creds''" "''default''" 3600] h e c q
  show ?thesis
    by simp
qed

text \<open>
  A requested duration of \<open>0\<close> is not looked up: the only service call is the
  exchange, with the role's own duration.
\<close>

theorem C4_zero_duration_counterexample:
  "calls (snd (assumeRoleWithSAML sampleEnv ''PHNhbWw+'' ''creds'' ''default'' roleA
       (Some (Num 0)) sampleWorld)) =
     [StsAssumeRoleWithSAML \<lparr>DurationSeconds = Some (Num 3600), PrincipalArn = ''arn:idp/X'',
        RoleArn = ''arn:role/A'', SAMLAssertion = ''PHNhbWw+''\<rparr>] \<and>
   sessionDuration roleA = Some (Num 3600)"
  by (simp add: assume_default exchange_calls stsRequest_def roleA_def sampleWorld_def)

text \<open>
  C10. A custom session duration that is falsy (\<open>undefined\<close>, \<open>0\<close> or
  \<open>NaN\<close>) gives the very outcome and the very world of a call without one:
  the exchange is made with the role's own \<open>sessionDuration\<close>, it is the only
  service call (so the role's maximum is not looked up), and no warning is logged.
\<close>

theorem C10_falsy_duration_is_default:
  assumes "\<not> truthyNum d"
  shows "assumeRoleWithSAML E a f p r d w = assumeRoleWithSAML E a f p r None w \<and>
         calls (snd (assumeRoleWithSAML E a f p r d w)) =
           calls w @ [StsAssumeRoleWithSAML (stsRequest a r (sessionDuration r))] \<and>
         filter isWarning (logged (snd (assumeRoleWithSAML E a f p r d w))) =
           filter isWarning (logged w)"
  using assms by (simp add: assume_default exchange_calls exchange_warnings)

theorem C10_falsy_duration_is_default_witness:
  "\<not> truthyNum (Some (Num 0)) \<and>
   assumeRoleWithSAML sampleEnv ''PHNhbWw+'' ''creds'' ''default'' roleA (Some (Num 0)) sampleWorld =
     assumeRoleWithSAML sampleEnv ''PHNhbWw+'' ''creds'' ''default'' roleA None sampleWorld \<and>
   calls (snd (assumeRoleWithSAML sampleEnv ''PHNhbWw+'' ''creds'' ''default'' roleA
       (Some (Num 0)) sampleWorld)) =
     [StsAssumeRoleWithSAML \<lparr>DurationSeconds = Some (Num 3600), PrincipalArn = ''arn:idp/X'',
        RoleArn = ''arn:role/A'', SAMLAssertion = ''PHNhbWw+''\<rparr>] \<and>
   filter isWarning (logged (snd (assumeRoleWithSAML sampleEnv ''PHNhbWw+'' ''creds'' ''default''
       roleA (Some (Num 0)) sampleWorld))) = [] \<and>
   \<not> truthyNum (Some NaN) \<and>
   assumeRoleWithSAML sampleEnv ''PHNhbWw+'' ''creds'' ''default'' roleA (Some NaN) sampleWorld =
     assumeRoleWithSAML sampleEnv ''PHNhbWw+'' ''creds'' ''default'' roleA None sampleWorld"
proof -
  have z: "\<not> truthyNum (Some (Num 0))" and n: "\<not> truthyNum (Some NaN)"
    by simp_all
  have c: "calls sampleWorld = []" and l: "logged sampleWorld = []"
    by (simp_all add: sampleWorld_def)
  have q: "stsRequest ''PHNhbWw+'' roleA (sessionDuration roleA) =
      \<lparr>DurationSeconds = Some (Num 3600), PrincipalArn = ''arn:idp/X'',
        RoleArn = ''arn:role/A'', SAMLAssertion = ''PHNhbWw+''\<rparr>"
    by (simp add: stsRequest_def roleA_def)
  note t = C10_falsy_duration_is_default [OF z, of sampleEnv "''PHNhbWw+''" "''creds''"
      "''default''" roleA sampleWorld]
  note t' = C10_falsy_duration_is_default [OF n, of sampleEnv "''PHNhbWw+''" "''creds''"
      "''default''" roleA sampleWorld]
  have 1: "assumeRoleWithSAML sampleEnv ''PHNhbWw+'' ''creds'' ''default'' roleA (Some (Num 0))
        sampleWorld =
      assumeRoleWithSAML sampleEnv ''PHNhbWw+'' ''creds'' ''default'' roleA None sampleWorld"
    by (rule conjunct1 [OF t])
  have 2: "calls (snd (assumeRoleWithSAML sampleEnv ''PHNhbWw+'' ''creds'' ''default'' roleA
       (Some (Num 0)) sampleWorld)) =
     [StsAssumeRoleWithSAML \<lparr>DurationSeconds = Some (Num 3600), PrincipalArn = ''arn:idp/X'',
        RoleArn = ''arn:role/A'', SAMLAssertion = ''PHNhbWw+''\<rparr>]"
    using conjunct1 [OF conjunct2 [OF t]] by (simp only: c q append_Nil)
  have 3: "filter isWarning (logged (snd (assumeRoleWithSAML sampleEnv ''PHNhbWw+'' ''creds''
       ''default'' roleA (Some (Num 0)) sampleWorld))) = []"
    using conjunct2 [OF conjunct2 [OF t]] by (simp only: l filter.simps)
  have 4: "assumeRoleWithSAML sampleEnv ''PHNhbWw+'' ''creds'' ''default'' roleA (Some NaN)
        sampleWorld =
      assumeRoleWithSAML sampleEnv ''PHNhbWw+'' ''creds'' ''default'' roleA None sampleWorld"
    by (rule conjunct1 [OF t'])
  from z n 1 2 3 4 show ?thesis
    by blast
qed

end
